theory Spec2Isabelle
  imports Complex_Main "HOL-Library.AList"
begin

section \<open>JavaScript values\<close>

text \<open>
  The validator (\<^verbatim>\<open>src/js/utils/validator.js\<close>) and the form controller
  (\<^verbatim>\<open>src/js/components/Form.js\<close>) are JavaScript. Their behaviour rests on the
  language's dynamic typing: truthiness, calling a value that may not be a function,
  \<^verbatim>\<open>Number(...)\<close>, \<^verbatim>\<open>trim()\<close>. The embedding therefore starts with a small universe of
  JavaScript values.

  \<^item> A string is a \<^typ>\<open>string\<close>: a list of 8-bit characters, read as the code units
    \<open>0..255\<close> of a JavaScript string.
  \<^item> A number is NaN, an infinity or a finite value held as a rational; \<open>-0\<close> is
    identified with \<open>0\<close> (no operation of the modelled code tells them apart).
  \<^item> Arrays and plain objects are reference types: they carry the identity of the
    object, which is what \<^verbatim>\<open>===\<close> compares. Arrays hold strings (a multi-valued form
    field); an object is the ordered list of its own properties, which hold data (never
    functions), and it inherits from \<^verbatim>\<open>Object.prototype\<close>.
  \<^item> The only exception the modelled code can raise is a \<^verbatim>\<open>TypeError\<close>.
\<close>

datatype js_error = TypeError

datatype jsnum = NaN | Fin rat | PosInf | NegInf

datatype jsval =
    JUndefined
  | JNull
  | JBool bool
  | JNum jsnum
  | JStr string
  | JArr nat "string list"
  | JObj nat "(string \<times> jsval) list"

text \<open>
  A value that may be a function: first-order data, or a function from its argument list
  to either a raised error or a value of the same kind (so a curried rule, a function
  returning a function, is a \<open>Func\<close> whose result is a \<open>Func\<close>).
\<close>

datatype jv = Data jsval | Func "jsval list \<Rightarrow> js_error + jv"

text \<open>\<^verbatim>\<open>f(a1, ..., an)\<close>: calling anything that is not a function raises a TypeError.\<close>

fun call :: "jv \<Rightarrow> jsval list \<Rightarrow> js_error + jv" where
  "call (Func f) args = f args"
| "call (Data v) args = Inl TypeError"

text \<open>\<^verbatim>\<open>typeof x === 'function'\<close>\<close>

fun is_function :: "jv \<Rightarrow> bool" where
  "is_function (Func f) = True"
| "is_function (Data v) = False"

text \<open>ToBoolean: the falsy values are undefined, null, false, NaN, 0 and the empty string.\<close>

fun truthy :: "jsval \<Rightarrow> bool" where
  "truthy JUndefined = False"
| "truthy JNull = False"
| "truthy (JBool b) = b"
| "truthy (JNum n) = (n \<noteq> NaN \<and> n \<noteq> Fin 0)"
| "truthy (JStr s) = (s \<noteq> [])"
| "truthy (JArr r xs) = True"
| "truthy (JObj r ps) = True"

fun truthy_jv :: "jv \<Rightarrow> bool" where
  "truthy_jv (Func f) = True"
| "truthy_jv (Data v) = truthy v"

text \<open>The \<open>i\<close>-th actual argument of a call; a missing argument is undefined.\<close>

definition arg :: "jsval list \<Rightarrow> nat \<Rightarrow> jsval" where
  "arg args i = (if i < length args then args ! i else JUndefined)"

section \<open>Numbers\<close>

text \<open>
  The comparison \<^verbatim>\<open>a >= b\<close> on numbers: false as soon as one side is NaN.
  \<open>num_le a b\<close> is \<^verbatim>\<open>a <= b\<close>, so \<^verbatim>\<open>a >= b\<close> is \<open>num_le b a\<close>.
\<close>

fun num_le :: "jsnum \<Rightarrow> jsnum \<Rightarrow> bool" where
  "num_le NaN b = False"
| "num_le a NaN = False"
| "num_le NegInf b = True"
| "num_le a PosInf = True"
| "num_le (Fin x) (Fin y) = (x \<le> y)"
| "num_le PosInf b = False"
| "num_le a NegInf = False"

text \<open>\<^verbatim>\<open>Number.isInteger\<close>: a finite number with no fractional part.\<close>

fun is_integer :: "jsnum \<Rightarrow> bool" where
  "is_integer (Fin q) = (of_int \<lfloor>q\<rfloor> = q)"
| "is_integer n = False"

fun negate :: "jsnum \<Rightarrow> jsnum" where
  "negate NaN = NaN"
| "negate (Fin q) = Fin (- q)"
| "negate PosInf = NegInf"
| "negate NegInf = PosInf"

text \<open>
  Rounding a rational to the nearest IEEE 754 binary64 value, ties to even, as
  \<^verbatim>\<open>Number\<close> does with the mathematical value of a literal: 53 significant bits, least
  exponent \<open>-1074\<close>, overflow to an infinity from \<open>2^1024\<close> on.
\<close>

fun bitlen :: "nat \<Rightarrow> nat" where
  "bitlen n = (if n = 0 then 0 else Suc (bitlen (n div 2)))"

declare bitlen.simps [simp del]

definition pow2 :: "int \<Rightarrow> rat" where
  "pow2 k = (if 0 \<le> k then 2 ^ nat k else 1 / 2 ^ nat (- k))"

definition pow10 :: "int \<Rightarrow> rat" where
  "pow10 k = (if 0 \<le> k then 10 ^ nat k else 1 / 10 ^ nat (- k))"

definition ilog2 :: "rat \<Rightarrow> int" where
  "ilog2 a = (let (n, d) = quotient_of a;
                  k = int (bitlen (nat n)) - int (bitlen (nat d))
              in if pow2 k \<le> a then k else k - 1)"

definition round_half_even :: "rat \<Rightarrow> int" where
  "round_half_even x =
     (let f = \<lfloor>x\<rfloor>; d = x - of_int f
      in if d < 1 / 2 then f else if 1 / 2 < d then f + 1 else if even f then f else f + 1)"

definition round64 :: "rat \<Rightarrow> jsnum" where
  "round64 q =
     (if q = 0 then Fin 0
      else let a = \<bar>q\<bar>; e = ilog2 a; u = max (e - 52) (- 1074);
               r = of_int (round_half_even (a / pow2 u)) * pow2 u
           in if pow2 1024 \<le> r then (if 0 < q then PosInf else NegInf)
              else Fin (if 0 < q then r else - r))"

section \<open>Strings\<close>

text \<open>
  The white space that \<^verbatim>\<open>trim()\<close>, \<^verbatim>\<open>Number(...)\<close> and the regular expression class
  \<^verbatim>\<open>\s\<close> recognise, within the code units \<open>0..255\<close>: TAB, LF, VT, FF, CR, SPACE and
  NO-BREAK SPACE.
\<close>

definition is_ws :: "char \<Rightarrow> bool" where
  "is_ws c = (c \<in> set [CHR 0x09, CHR 0x0A, CHR 0x0B, CHR 0x0C, CHR 0x0D, CHR 0x20, CHR 0xA0])"

definition trim :: "string \<Rightarrow> string" where
  "trim s = rev (dropWhile is_ws (rev (dropWhile is_ws s)))"

text \<open>\<^verbatim>\<open>s.split(c)\<close> for a one-character separator: never empty, \<^verbatim>\<open>"".split(c)\<close> is \<^verbatim>\<open>[""]\<close>.\<close>

fun split_on :: "char \<Rightarrow> string \<Rightarrow> string list" where
  "split_on c [] = [[]]"
| "split_on c (x # xs) =
     (if x = c then [] # split_on c xs
      else (case split_on c xs of [] \<Rightarrow> [[x]] | w # ws \<Rightarrow> (x # w) # ws))"

text \<open>\<^verbatim>\<open>xs.join(',')\<close>\<close>

fun join_commas :: "string list \<Rightarrow> string" where
  "join_commas [] = []"
| "join_commas [x] = x"
| "join_commas (x # y # ys) = x @ CHR '','' # join_commas (y # ys)"

fun position :: "'a \<Rightarrow> 'a list \<Rightarrow> nat option" where
  "position c [] = None"
| "position c (x # xs) = (if c = x then Some 0 else map_option Suc (position c xs))"

definition digit_of :: "char \<Rightarrow> nat option" where
  "digit_of c =
     (case position c ''0123456789abcdef'' of
        Some d \<Rightarrow> Some d
      | None \<Rightarrow> map_option (\<lambda>d. d + 10) (position c ''ABCDEF''))"

definition is_digit :: "char \<Rightarrow> bool" where
  "is_digit c = (c \<in> set ''0123456789'')"

fun digits_value :: "nat \<Rightarrow> string \<Rightarrow> nat \<Rightarrow> nat option" where
  "digits_value b [] acc = Some acc"
| "digits_value b (c # cs) acc =
     (case digit_of c of
        None \<Rightarrow> None
      | Some d \<Rightarrow> if d < b then digits_value b cs (acc * b + d) else None)"

text \<open>A non-empty run of digits of base \<open>b\<close>, read as a natural number.\<close>

definition parse_nat :: "nat \<Rightarrow> string \<Rightarrow> nat option" where
  "parse_nat b s = (if s = [] then None else digits_value b s 0)"

text \<open>SignedInteger of an exponent part: digits with an optional sign.\<close>

definition signed_integer :: "string \<Rightarrow> int option" where
  "signed_integer s =
     (case s of
        c # r \<Rightarrow>
          if c = CHR ''+'' then map_option int (parse_nat 10 r)
          else if c = CHR ''-'' then map_option (\<lambda>n. - int n) (parse_nat 10 r)
          else map_option int (parse_nat 10 s)
      | [] \<Rightarrow> None)"

text \<open>
  StrUnsignedDecimalLiteral without \<^verbatim>\<open>Infinity\<close>: digits, an optional fraction and an
  optional exponent, with at least one digit before the exponent; the result is the
  literal's mathematical value.
\<close>

definition parse_decimal :: "string \<Rightarrow> rat option" where
  "parse_decimal s =
     (let ip = takeWhile is_digit s; r1 = dropWhile is_digit s;
          fp = (case r1 of c # t \<Rightarrow> if c = CHR ''.'' then takeWhile is_digit t else [] | [] \<Rightarrow> []);
          r2 = (case r1 of c # t \<Rightarrow> if c = CHR ''.'' then dropWhile is_digit t else r1 | [] \<Rightarrow> []);
          ex = (case r2 of
                  [] \<Rightarrow> Some 0
                | c # t \<Rightarrow> if c = CHR ''e'' \<or> c = CHR ''E'' then signed_integer t else None)
      in if ip = [] \<and> fp = [] then None
         else (case (parse_nat 10 (ip @ fp), ex) of
                 (Some m, Some e) \<Rightarrow> Some (of_nat m * pow10 (e - int (length fp)))
               | _ \<Rightarrow> None))"

definition unsigned_literal :: "string \<Rightarrow> jsnum" where
  "unsigned_literal s =
     (if s = ''Infinity'' then PosInf
      else (case parse_decimal s of None \<Rightarrow> NaN | Some q \<Rightarrow> round64 q))"

text \<open>The prefix of a hexadecimal, octal or binary literal, and the digits after it.\<close>

fun radix_prefix :: "string \<Rightarrow> (nat \<times> string) option" where
  "radix_prefix (z # c # ds) =
     (if z \<noteq> CHR ''0'' then None
      else if c = CHR ''x'' \<or> c = CHR ''X'' then Some (16, ds)
      else if c = CHR ''o'' \<or> c = CHR ''O'' then Some (8, ds)
      else if c = CHR ''b'' \<or> c = CHR ''B'' then Some (2, ds)
      else None)"
| "radix_prefix s = None"

text \<open>
  \<^verbatim>\<open>Number(s)\<close> on a string (StringToNumber): white space is trimmed, the empty string
  is \<open>0\<close>, anything that is not a numeric literal is NaN.
\<close>

definition string_to_number :: "string \<Rightarrow> jsnum" where
  "string_to_number s =
     (let t = trim s in
      if t = [] then Fin 0
      else (case radix_prefix t of
              Some (b, ds) \<Rightarrow> (case parse_nat b ds of None \<Rightarrow> NaN | Some n \<Rightarrow> round64 (of_nat n))
            | None \<Rightarrow>
                (case t of
                   c # r \<Rightarrow>
                     if c = CHR ''+'' then unsigned_literal r
                     else if c = CHR ''-'' then negate (unsigned_literal r)
                     else unsigned_literal t
                 | [] \<Rightarrow> Fin 0)))"

text \<open>
  \<^verbatim>\<open>Number(v)\<close> on any value (ToNumber), where the conversion does not raise. An array is
  converted through its \<^verbatim>\<open>join(',')\<close>; a plain object through \<^verbatim>\<open>"[object Object]"\<close>, which
  is not numeric.
\<close>

fun number_value :: "jsval \<Rightarrow> jsnum" where
  "number_value JUndefined = NaN"
| "number_value JNull = Fin 0"
| "number_value (JBool b) = Fin (if b then 1 else 0)"
| "number_value (JNum n) = n"
| "number_value (JStr s) = string_to_number s"
| "number_value (JArr r xs) = string_to_number (join_commas xs)"
| "number_value (JObj r ps) = NaN"

text \<open>
  Converting an object to a primitive calls its \<^verbatim>\<open>valueOf\<close> and \<^verbatim>\<open>toString\<close> when they are
  functions. The inherited \<^verbatim>\<open>valueOf\<close> returns the object itself and the inherited
  \<^verbatim>\<open>toString\<close> returns \<^verbatim>\<open>"[object Object]"\<close>. An own property holds data and is not
  callable, so an object with an own property \<^verbatim>\<open>toString\<close> has no primitive value:
  \<^verbatim>\<open>Number(v)\<close> and the conversion to a string raise a TypeError.
\<close>

definition unconvertible :: "jsval \<Rightarrow> bool" where
  "unconvertible v = (case v of JObj r ps \<Rightarrow> map_of ps ''toString'' \<noteq> None | _ \<Rightarrow> False)"

definition to_number :: "jsval \<Rightarrow> js_error + jsnum" where
  "to_number v = (if unconvertible v then Inl TypeError else Inr (number_value v))"

text \<open>
  What the host platform provides and the repository does not define: whether
  \<^verbatim>\<open>new URL(s)\<close> accepts a string, and the text of a number that is not an integer
  below \<open>2^53\<close> (the shortest digits that read back as the same binary64 value; below
  \<open>2^53\<close> every integer is a binary64 value and its text is its decimal digits).
\<close>

record platform =
  url_parses :: "string \<Rightarrow> bool"
  number_text :: "rat \<Rightarrow> string"

fun dec_string :: "nat \<Rightarrow> string" where
  "dec_string n =
     (if n < 10 then [''0123456789'' ! n]
      else dec_string (n div 10) @ [''0123456789'' ! (n mod 10)])"

declare dec_string.simps [simp del]

definition num_to_string :: "platform \<Rightarrow> jsnum \<Rightarrow> string" where
  "num_to_string P n =
     (case n of
        NaN \<Rightarrow> ''NaN''
      | PosInf \<Rightarrow> ''Infinity''
      | NegInf \<Rightarrow> ''-Infinity''
      | Fin q \<Rightarrow>
          if of_int \<lfloor>q\<rfloor> = q \<and> \<bar>q\<bar> < 2 ^ 53
          then (if q < 0 then CHR ''-'' # dec_string (nat (- \<lfloor>q\<rfloor>)) else dec_string (nat \<lfloor>q\<rfloor>))
          else number_text P q)"

text \<open>
  ToString, as a template literal, \<^verbatim>\<open>RegExp.prototype.test\<close> and a property access apply
  it: the text of a value whose conversion does not raise, and the conversion itself.
\<close>

fun text_value :: "platform \<Rightarrow> jsval \<Rightarrow> string" where
  "text_value P JUndefined = ''undefined''"
| "text_value P JNull = ''null''"
| "text_value P (JBool b) = (if b then ''true'' else ''false'')"
| "text_value P (JNum n) = num_to_string P n"
| "text_value P (JStr s) = s"
| "text_value P (JArr r xs) = join_commas xs"
| "text_value P (JObj r ps) = ''[object Object]''"

definition to_string :: "platform \<Rightarrow> jsval \<Rightarrow> js_error + string" where
  "to_string P v = (if unconvertible v then Inl TypeError else Inr (text_value P v))"

text \<open>
  \<^verbatim>\<open>a === b\<close>: primitives by value (NaN equals nothing), arrays and objects by identity.
\<close>

fun strict_eq :: "jsval \<Rightarrow> jsval \<Rightarrow> bool" where
  "strict_eq (JNum a) (JNum b) = (a \<noteq> NaN \<and> a = b)"
| "strict_eq (JArr r xs) (JArr r' ys) = (r = r')"
| "strict_eq (JObj r ps) (JObj r' qs) = (r = r')"
| "strict_eq (JArr r xs) b = False"
| "strict_eq (JObj r ps) b = False"
| "strict_eq a (JArr r xs) = False"
| "strict_eq a (JObj r ps) = False"
| "strict_eq a b = (a = b)"

section \<open>Regular expressions\<close>

text \<open>
  The rules \<^verbatim>\<open>email\<close>, \<^verbatim>\<open>phone\<close>, \<^verbatim>\<open>alpha\<close> and \<^verbatim>\<open>alphanumeric\<close> test a regular
  expression literal anchored at both ends (\<^verbatim>\<open>^...$\<close>, no flags), so \<^verbatim>\<open>test\<close> asks
  whether the whole string belongs to the language of the expression. Membership is
  decided by derivatives.
\<close>

datatype regex =
    Nothing
  | Epsilon
  | Chars "char \<Rightarrow> bool"
  | Seq regex regex
  | Alt regex regex
  | Star regex

fun nullable :: "regex \<Rightarrow> bool" where
  "nullable Nothing = False"
| "nullable Epsilon = True"
| "nullable (Chars p) = False"
| "nullable (Seq r s) = (nullable r \<and> nullable s)"
| "nullable (Alt r s) = (nullable r \<or> nullable s)"
| "nullable (Star r) = True"

fun deriv :: "char \<Rightarrow> regex \<Rightarrow> regex" where
  "deriv c Nothing = Nothing"
| "deriv c Epsilon = Nothing"
| "deriv c (Chars p) = (if p c then Epsilon else Nothing)"
| "deriv c (Seq r s) =
     (if nullable r then Alt (Seq (deriv c r) s) (deriv c s) else Seq (deriv c r) s)"
| "deriv c (Alt r s) = Alt (deriv c r) (deriv c s)"
| "deriv c (Star r) = Seq (deriv c r) (Star r)"

fun regex_test :: "regex \<Rightarrow> string \<Rightarrow> bool" where
  "regex_test r [] = nullable r"
| "regex_test r (c # cs) = regex_test (deriv c r) cs"

text \<open>\<^verbatim>\<open>r+\<close>, \<^verbatim>\<open>r?\<close> and \<^verbatim>\<open>r{0,n}\<close>\<close>

definition Plus :: "regex \<Rightarrow> regex" where
  "Plus r = Seq r (Star r)"

definition Opt :: "regex \<Rightarrow> regex" where
  "Opt r = Alt r Epsilon"

fun Upto :: "nat \<Rightarrow> regex \<Rightarrow> regex" where
  "Upto 0 r = Epsilon"
| "Upto (Suc n) r = Alt Epsilon (Seq r (Upto n r))"

definition is_alpha :: "char \<Rightarrow> bool" where
  "is_alpha c = (c \<in> set ''abcdefghijklmnopqrstuvwxyzABCDEFGHIJKLMNOPQRSTUVWXYZ'')"

text \<open>\<^verbatim>\<open>/^[^\s@]+@[^\s@]+\.[^\s@]+$/\<close>\<close>

definition emailRegex :: regex where
  "emailRegex =
     Seq (Plus (Chars (\<lambda>c. \<not> is_ws c \<and> c \<noteq> CHR ''@'')))
    (Seq (Chars (\<lambda>c. c = CHR ''@''))
    (Seq (Plus (Chars (\<lambda>c. \<not> is_ws c \<and> c \<noteq> CHR ''@'')))
    (Seq (Chars (\<lambda>c. c = CHR ''.''))
         (Plus (Chars (\<lambda>c. \<not> is_ws c \<and> c \<noteq> CHR ''@''))))))"

text \<open>\<^verbatim>\<open>/^[\+]?[1-9][\d]{0,15}$/\<close>\<close>

definition phoneRegex :: regex where
  "phoneRegex =
     Seq (Opt (Chars (\<lambda>c. c = CHR ''+'')))
    (Seq (Chars (\<lambda>c. c \<in> set ''123456789''))
         (Upto 15 (Chars is_digit)))"

text \<open>\<^verbatim>\<open>/^[a-zA-Z]+$/\<close> and \<^verbatim>\<open>/^[a-zA-Z0-9]+$/\<close>\<close>

definition alphaRegex :: regex where
  "alphaRegex = Plus (Chars is_alpha)"

definition alphanumericRegex :: regex where
  "alphanumericRegex = Plus (Chars (\<lambda>c. is_alpha c \<or> is_digit c))"

section \<open>The rule registry and rule specifications\<close>

text \<open>
  \<^verbatim>\<open>validator.rules\<close> and \<^verbatim>\<open>validator.messages\<close> are plain objects used as lookup tables,
  and \<^verbatim>\<open>addRule\<close> extends both at run time, so the registry is a parameter of the
  validation functions: \<open>rules reg name\<close> is what \<^verbatim>\<open>this.rules[name]\<close> yields, \<open>None\<close> for
  undefined. The functions of the registry do not depend on \<^verbatim>\<open>this\<close> (the module's are
  arrow functions).
\<close>

record registry =
  rules :: "string \<rightharpoonup> jv"
  messages :: "string \<rightharpoonup> jv"

definition rule_of :: "registry \<Rightarrow> string \<Rightarrow> jv" where
  "rule_of reg name = (case rules reg name of None \<Rightarrow> Data JUndefined | Some f \<Rightarrow> f)"

definition message_of :: "registry \<Rightarrow> string \<Rightarrow> jv" where
  "message_of reg name = (case messages reg name of None \<Rightarrow> Data JUndefined | Some m \<Rightarrow> m)"

text \<open>\<^verbatim>\<open>addRule(name, rule, message)\<close>\<close>

definition addRule :: "string \<Rightarrow> jv \<Rightarrow> jv \<Rightarrow> registry \<Rightarrow> registry" where
  "addRule name rule message reg =
     reg\<lparr>rules := (rules reg)(name \<mapsto> rule), messages := (messages reg)(name \<mapsto> message)\<rparr>"

text \<open>
  A RuleSpec is either a bare rule name (\<^verbatim>\<open>typeof rule === 'string'\<close>) or an object
  \<^verbatim>\<open>{rule, params, message}\<close> whose \<^verbatim>\<open>params\<close> and \<^verbatim>\<open>message\<close> may be absent.
\<close>

datatype rulespec =
    RName string
  | RObj string "jsval list option" "string option"

record field_result =
  isValid :: bool
  errors :: "jv list"

section \<open>The rules and messages the validator ships with\<close>

text \<open>
  Each entry of \<^verbatim>\<open>validator.rules\<close>, as a function of its argument list. A parameterised
  rule is curried: called on its parameter it returns the predicate.
\<close>

definition result :: "bool \<Rightarrow> js_error + jv" where
  "result b = Inr (Data (JBool b))"

text \<open>
  \<^verbatim>\<open>required\<close>: a string is trimmed first; the value passes unless it is then the empty
  string, null or undefined.
\<close>

definition rule_required :: "jsval list \<Rightarrow> js_error + jv" where
  "rule_required args =
     (let v = arg args 0;
          trimmed = (case v of JStr s \<Rightarrow> JStr (trim s) | _ \<Rightarrow> v)
      in result (trimmed \<noteq> JStr [] \<and> trimmed \<noteq> JNull \<and> trimmed \<noteq> JUndefined))"

text \<open>\<^verbatim>\<open>emailRegex.test(value)\<close> converts the value to a string first.\<close>

definition rule_email :: "platform \<Rightarrow> jsval list \<Rightarrow> js_error + jv" where
  "rule_email P args =
     (case to_string P (arg args 0) of
        Inl e \<Rightarrow> Inl e
      | Inr s \<Rightarrow> result (regex_test emailRegex s))"

text \<open>
  \<^verbatim>\<open>typeof value === 'string' && value.length >= min\<close>: the comparison converts the bound
  to a number, and is evaluated for a string value only.
\<close>

definition rule_minLength :: "jsval list \<Rightarrow> js_error + jv" where
  "rule_minLength params =
     Inr (Func (\<lambda>args.
       (case arg args 0 of
          JStr s \<Rightarrow>
            (case to_number (arg params 0) of
               Inl e \<Rightarrow> Inl e
             | Inr bound \<Rightarrow> result (num_le bound (Fin (of_nat (length s)))))
        | _ \<Rightarrow> result False)))"

definition rule_maxLength :: "jsval list \<Rightarrow> js_error + jv" where
  "rule_maxLength params =
     Inr (Func (\<lambda>args.
       (case arg args 0 of
          JStr s \<Rightarrow>
            (case to_number (arg params 0) of
               Inl e \<Rightarrow> Inl e
             | Inr bound \<Rightarrow> result (num_le (Fin (of_nat (length s))) bound))
        | _ \<Rightarrow> result False)))"

text \<open>
  \<^verbatim>\<open>const num = Number(value); return !isNaN(num) && num >= minValue\<close>: the bound is
  converted only when \<^verbatim>\<open>num\<close> is not NaN.
\<close>

definition rule_min :: "jsval list \<Rightarrow> js_error + jv" where
  "rule_min params =
     Inr (Func (\<lambda>args.
       (case to_number (arg args 0) of
          Inl e \<Rightarrow> Inl e
        | Inr num \<Rightarrow>
            if num = NaN then result False
            else (case to_number (arg params 0) of
                    Inl e \<Rightarrow> Inl e
                  | Inr bound \<Rightarrow> result (num_le bound num)))))"

definition rule_max :: "jsval list \<Rightarrow> js_error + jv" where
  "rule_max params =
     Inr (Func (\<lambda>args.
       (case to_number (arg args 0) of
          Inl e \<Rightarrow> Inl e
        | Inr num \<Rightarrow>
            if num = NaN then result False
            else (case to_number (arg params 0) of
                    Inl e \<Rightarrow> Inl e
                  | Inr bound \<Rightarrow> result (num_le num bound)))))"

text \<open>
  \<^verbatim>\<open>pattern\<close>: \<^verbatim>\<open>regex.test(value)\<close> on the parameter. The value universe has no RegExp
  objects (the rule parser yields strings and numbers only), and on every other
  parameter \<^verbatim>\<open>regex.test\<close> is not a function.
\<close>

definition rule_pattern :: "jsval list \<Rightarrow> js_error + jv" where
  "rule_pattern params = Inr (Func (\<lambda>args. Inl TypeError))"

text \<open>
  \<^verbatim>\<open>url\<close>: every exception of \<^verbatim>\<open>new URL(value)\<close>, the conversion of the value included, is
  caught, so the rule never raises.
\<close>

definition rule_url :: "platform \<Rightarrow> jsval list \<Rightarrow> js_error + jv" where
  "rule_url P args =
     (case to_string P (arg args 0) of
        Inl e \<Rightarrow> result False
      | Inr s \<Rightarrow> result (url_parses P s))"

text \<open>
  \<^verbatim>\<open>phone\<close>: \<^verbatim>\<open>value.replace(/[\s\-\(\)]/g, '')\<close> is a TypeError unless the value is a
  string.
\<close>

definition rule_phone :: "jsval list \<Rightarrow> js_error + jv" where
  "rule_phone args =
     (case arg args 0 of
        JStr s \<Rightarrow>
          result (regex_test phoneRegex
                    (filter (\<lambda>c. \<not> (is_ws c \<or> c = CHR ''-'' \<or> c = CHR ''('' \<or> c = CHR '')'')) s))
      | _ \<Rightarrow> Inl TypeError)"

text \<open>
  \<^verbatim>\<open>!isNaN(Number(value)) && value.trim() !== ''\<close>: the second operand is evaluated only
  when the first holds, and is a TypeError unless the value is a string.
\<close>

definition rule_number :: "jsval list \<Rightarrow> js_error + jv" where
  "rule_number args =
     (case to_number (arg args 0) of
        Inl e \<Rightarrow> Inl e
      | Inr num \<Rightarrow>
          if num = NaN then result False
          else (case arg args 0 of
                  JStr s \<Rightarrow> result (trim s \<noteq> [])
                | _ \<Rightarrow> Inl TypeError))"

definition rule_integer :: "jsval list \<Rightarrow> js_error + jv" where
  "rule_integer args =
     (case to_number (arg args 0) of
        Inl e \<Rightarrow> Inl e
      | Inr num \<Rightarrow> result (is_integer num))"

definition rule_alpha :: "platform \<Rightarrow> jsval list \<Rightarrow> js_error + jv" where
  "rule_alpha P args =
     (case to_string P (arg args 0) of
        Inl e \<Rightarrow> Inl e
      | Inr s \<Rightarrow> result (regex_test alphaRegex s))"

definition rule_alphanumeric :: "platform \<Rightarrow> jsval list \<Rightarrow> js_error + jv" where
  "rule_alphanumeric P args =
     (case to_string P (arg args 0) of
        Inl e \<Rightarrow> Inl e
      | Inr s \<Rightarrow> result (regex_test alphanumericRegex s))"

text \<open>
  \<^verbatim>\<open>match\<close>: \<^verbatim>\<open>value === formData[fieldName]\<close>. The field name is converted to a property
  key, a string. Reading a property of undefined or null is a TypeError.
  \<^verbatim>\<open>validateField\<close> always passes an object as second argument; on any other second
  argument the property is taken to be absent.
\<close>

definition rule_match :: "platform \<Rightarrow> jsval list \<Rightarrow> js_error + jv" where
  "rule_match P params =
     Inr (Func (\<lambda>args.
       (case to_string P (arg params 0) of
          Inl e \<Rightarrow> Inl e
        | Inr key \<Rightarrow>
            (case arg args 1 of
               JObj r ps \<Rightarrow>
                 result (strict_eq (arg args 0)
                           (case map_of ps key of None \<Rightarrow> JUndefined | Some w \<Rightarrow> w))
             | JUndefined \<Rightarrow> Inl TypeError
             | JNull \<Rightarrow> Inl TypeError
             | _ \<Rightarrow> result (strict_eq (arg args 0) JUndefined)))))"

text \<open>
  A message that is a template literal over the rule's parameter, which the literal
  converts to a string.
\<close>

definition msg_template :: "platform \<Rightarrow> string \<Rightarrow> string \<Rightarrow> jv" where
  "msg_template P pre post =
     Func (\<lambda>params.
       (case to_string P (arg params 0) of
          Inl e \<Rightarrow> Inl e
        | Inr s \<Rightarrow> Inr (Data (JStr (pre @ s @ post)))))"

definition builtin_rules :: "platform \<Rightarrow> (string \<times> jv) list" where
  "builtin_rules P =
     [(''required'', Func rule_required),
      (''email'', Func (rule_email P)),
      (''minLength'', Func rule_minLength),
      (''maxLength'', Func rule_maxLength),
      (''min'', Func rule_min),
      (''max'', Func rule_max),
      (''pattern'', Func rule_pattern),
      (''url'', Func (rule_url P)),
      (''phone'', Func rule_phone),
      (''number'', Func rule_number),
      (''integer'', Func rule_integer),
      (''alpha'', Func (rule_alpha P)),
      (''alphanumeric'', Func (rule_alphanumeric P)),
      (''match'', Func (rule_match P))]"

definition builtin_messages :: "platform \<Rightarrow> (string \<times> jv) list" where
  "builtin_messages P =
     [(''required'', Data (JStr ''This field is required'')),
      (''email'', Data (JStr ''Please enter a valid email address'')),
      (''minLength'', msg_template P ''Must be at least '' '' characters''),
      (''maxLength'', msg_template P ''Must not exceed '' '' characters''),
      (''min'', msg_template P ''Must be at least '' []),
      (''max'', msg_template P ''Must not exceed '' []),
      (''pattern'', Data (JStr ''Please enter a valid format'')),
      (''url'', Data (JStr ''Please enter a valid URL'')),
      (''phone'', Data (JStr ''Please enter a valid phone number'')),
      (''number'', Data (JStr ''Please enter a valid number'')),
      (''integer'', Data (JStr ''Please enter a whole number'')),
      (''alpha'', Data (JStr ''Only letters are allowed'')),
      (''alphanumeric'', Data (JStr ''Only letters and numbers are allowed'')),
      (''match'', msg_template P ''Must match '' [])]"

text \<open>
  The registry as the module defines it, before any \<^verbatim>\<open>addRule\<close>: its own entries. The
  two objects also inherit the members of \<^verbatim>\<open>Object.prototype\<close> (\<^verbatim>\<open>toString\<close>,
  \<^verbatim>\<open>hasOwnProperty\<close>, ...), whose behaviour depends on how they are called and is not
  modelled; \<open>builtin\<close> is used below only at the names the module defines and at a name
  that nothing defines.
\<close>

definition builtin :: "platform \<Rightarrow> registry" where
  "builtin P = \<lparr>rules = map_of (builtin_rules P), messages = map_of (builtin_messages P)\<rparr>"

text \<open>A concrete platform, for evaluating the rules on examples.\<close>

definition example_platform :: platform where
  "example_platform = \<lparr>url_parses = (\<lambda>s. False), number_text = (\<lambda>q. [])\<rparr>"

section \<open>validateField\<close>

text \<open>
  One iteration of the loop of \<^verbatim>\<open>validateField\<close>: it yields the pair
  \<open>(isValid, errorMessage)\<close> the iteration ends with, or the error it raises.

  For a bare name the registry entry is called at once (a TypeError when there is none)
  and the message entry is taken as it is. For an object the entry is looked up first
  and the rule is skipped when the entry is falsy; with parameters the entry is called on
  them to obtain the predicate; the message
  (\<^verbatim>\<open>customMessage || (typeof m === 'function' ? m(...ruleParams) : m)\<close>) is the override
  when it is truthy, else the registry's message, called on the parameters when it is a
  function.
\<close>

definition resolve_message :: "registry \<Rightarrow> string \<Rightarrow> jsval list \<Rightarrow> string option \<Rightarrow> js_error + jv" where
  "resolve_message reg ruleName ruleParams customMessage =
     (let fromRegistry =
            (if is_function (message_of reg ruleName)
             then call (message_of reg ruleName) ruleParams
             else Inr (message_of reg ruleName))
      in (case customMessage of
            None \<Rightarrow> fromRegistry
          | Some m \<Rightarrow> if m \<noteq> [] then Inr (Data (JStr m)) else fromRegistry))"

definition check_rule :: "registry \<Rightarrow> jsval \<Rightarrow> jsval \<Rightarrow> rulespec \<Rightarrow> js_error + (jv \<times> jv)" where
  "check_rule reg v formData rule =
     (case rule of
        RName name \<Rightarrow>
          (case call (rule_of reg name) [v, formData] of
             Inl e \<Rightarrow> Inl e
           | Inr ok \<Rightarrow> Inr (ok, message_of reg name))
      | RObj ruleName params customMessage \<Rightarrow>
          (let ruleParams = (case params of None \<Rightarrow> [] | Some ps \<Rightarrow> ps) in
           if truthy_jv (rule_of reg ruleName) then
             (case (if ruleParams \<noteq> [] then call (rule_of reg ruleName) ruleParams
                    else Inr (rule_of reg ruleName)) of
                Inl e \<Rightarrow> Inl e
              | Inr ruleFunction \<Rightarrow>
                  (case call ruleFunction [v, formData] of
                     Inl e \<Rightarrow> Inl e
                   | Inr ok \<Rightarrow>
                       (case resolve_message reg ruleName ruleParams customMessage of
                          Inl e \<Rightarrow> Inl e
                        | Inr msg \<Rightarrow> Inr (ok, msg))))
           else Inr (Data (JBool True), Data (JStr []))))"

text \<open>
  The loop \<^verbatim>\<open>for (const rule of rules)\<close> with its accumulator \<^verbatim>\<open>errors\<close>: a failing rule
  (\<^verbatim>\<open>!isValid\<close>) pushes its message; an error raised by a rule leaves the function.
\<close>

fun run_rules :: "registry \<Rightarrow> jsval \<Rightarrow> jsval \<Rightarrow> rulespec list \<Rightarrow> jv list \<Rightarrow> js_error + jv list" where
  "run_rules reg v formData [] errs = Inr errs"
| "run_rules reg v formData (rule # rest) errs =
     (case check_rule reg v formData rule of
        Inl e \<Rightarrow> Inl e
      | Inr (ok, errorMessage) \<Rightarrow>
          run_rules reg v formData rest (if \<not> truthy_jv ok then errs @ [errorMessage] else errs))"

text \<open>
  \<^verbatim>\<open>validateField(value, rules, formData = {})\<close>. The form data is an object (the
  snapshot of the form), given by its own properties; an omitted argument is the empty
  object \<open>[]\<close>. Property names that \<^verbatim>\<open>Object.prototype\<close> defines (\<^verbatim>\<open>constructor\<close>,
  \<^verbatim>\<open>toString\<close>, ...) are taken not to occur as rule or field names: a lookup finds own
  properties only.
\<close>

type_synonym jsobject = "(string \<times> jsval) list"

definition validateField :: "registry \<Rightarrow> jsval \<Rightarrow> rulespec list \<Rightarrow> jsobject \<Rightarrow> js_error + field_result" where
  "validateField reg v rs formData =
     (case run_rules reg v (JObj 0 formData) rs [] of
        Inl e \<Rightarrow> Inl e
      | Inr errs \<Rightarrow> Inr \<lparr>isValid = (length errs = 0), errors = errs\<rparr>)"

section \<open>The field validator as the specification words it\<close>

text \<open>
  The specification describes \<^verbatim>\<open>validateField\<close> rule by rule: a RuleSpec with parameters
  calls the registry's entry on them to obtain the predicate, the predicate is called on
  the value and the form snapshot, and every failing rule contributes its resolved
  message: the override when the RuleSpec carries one, else the registry's message,
  called on the same parameters when it is a function. A name without entry never
  fails. These definitions follow that wording, for both forms of RuleSpec alike; the
  theorems below compare them with the loop of the source.
\<close>

definition spec_name :: "rulespec \<Rightarrow> string" where
  "spec_name r = (case r of RName n \<Rightarrow> n | RObj n ps m \<Rightarrow> n)"

definition spec_parameters :: "rulespec \<Rightarrow> jsval list" where
  "spec_parameters r =
     (case r of RName n \<Rightarrow> [] | RObj n ps m \<Rightarrow> (case ps of None \<Rightarrow> [] | Some xs \<Rightarrow> xs))"

text \<open>The override message a RuleSpec carries; an empty one counts as none.\<close>

definition spec_override :: "rulespec \<Rightarrow> string option" where
  "spec_override r =
     (case r of
        RName n \<Rightarrow> None
      | RObj n ps m \<Rightarrow> (case m of None \<Rightarrow> None | Some t \<Rightarrow> if t = [] then None else Some t))"

definition spec_fails :: "registry \<Rightarrow> jsval \<Rightarrow> jsobject \<Rightarrow> rulespec \<Rightarrow> bool" where
  "spec_fails reg v fd r =
     (truthy_jv (rule_of reg (spec_name r)) \<and>
      (case (if spec_parameters r \<noteq> [] then call (rule_of reg (spec_name r)) (spec_parameters r)
             else Inr (rule_of reg (spec_name r))) of
         Inl e \<Rightarrow> False
       | Inr predicate \<Rightarrow>
           (case call predicate [v, JObj 0 fd] of
              Inl e \<Rightarrow> False
            | Inr ok \<Rightarrow> \<not> truthy_jv ok)))"

text \<open>
  The resolved message of a rule. (Where calling the message function raises,
  \<^verbatim>\<open>validateField\<close> raises too and there is no result to compare with.)
\<close>

definition spec_message :: "registry \<Rightarrow> rulespec \<Rightarrow> jv" where
  "spec_message reg r =
     (case spec_override r of
        Some t \<Rightarrow> Data (JStr t)
      | None \<Rightarrow>
          if is_function (message_of reg (spec_name r))
          then (case call (message_of reg (spec_name r)) (spec_parameters r) of
                  Inl e \<Rightarrow> Data JUndefined
                | Inr msg \<Rightarrow> msg)
          else message_of reg (spec_name r))"

text \<open>
  A rule can be evaluated when nothing in its evaluation raises: the registry's entry of
  a bare name is a function and its call returns; for an object whose name has an entry,
  obtaining the predicate from the parameters returns, the call of the predicate
  returns, and the call of a message function returns (it is called unless the RuleSpec
  carries an override).
\<close>

definition returns :: "js_error + 'a \<Rightarrow> bool" where
  "returns x = (case x of Inl e \<Rightarrow> False | Inr y \<Rightarrow> True)"

definition spec_completes :: "registry \<Rightarrow> jsval \<Rightarrow> jsobject \<Rightarrow> rulespec \<Rightarrow> bool" where
  "spec_completes reg v fd r =
     (case r of
        RName n \<Rightarrow> returns (call (rule_of reg n) [v, JObj 0 fd])
      | RObj n ps m \<Rightarrow>
          if truthy_jv (rule_of reg n) then
            (case (if spec_parameters r \<noteq> [] then call (rule_of reg n) (spec_parameters r)
                   else Inr (rule_of reg n)) of
               Inl e \<Rightarrow> False
             | Inr predicate \<Rightarrow>
                 returns (call predicate [v, JObj 0 fd]) \<and>
                 (spec_override r \<noteq> None \<or> \<not> is_function (message_of reg n) \<or>
                  returns (call (message_of reg n) (spec_parameters r))))
          else True)"

text \<open>
  The two forms of RuleSpec differ in one point: the loop calls a message function for an
  object only; a bare name takes the registry's message as it is. A rule is
  \<open>message_plain\<close> when this cannot show: it is an object, or it does not fail, or its
  message is not a function.
\<close>

definition message_plain :: "registry \<Rightarrow> jsval \<Rightarrow> jsobject \<Rightarrow> rulespec \<Rightarrow> bool" where
  "message_plain reg v fd r =
     (case r of
        RName n \<Rightarrow> \<not> (spec_fails reg v fd r \<and> is_function (message_of reg n))
      | RObj n ps m \<Rightarrow> True)"

text \<open>
  An extension of the registry by \<^verbatim>\<open>addRule\<close>, as an example: a rule that is not curried
  and always fails, with a function for its message.
\<close>

definition never_rule :: jv where
  "never_rule = Func (\<lambda>args. result False)"

definition never_message :: jv where
  "never_message = Func (\<lambda>params. Inr (Data (JStr ''Never valid'')))"

text \<open>What an iteration of the loop pushes.\<close>

definition pushed :: "registry \<Rightarrow> jsval \<Rightarrow> jsval \<Rightarrow> rulespec \<Rightarrow> jv list" where
  "pushed reg v fd r =
     (case check_rule reg v fd r of
        Inl e \<Rightarrow> []
      | Inr (ok, m) \<Rightarrow> if truthy_jv ok then [] else [m])"

text \<open>
  The values a form snapshot and a parsed rule parameter can hold, and the other
  primitives: everything but a plain object.
\<close>

definition form_value :: "jsval \<Rightarrow> bool" where
  "form_value v = (case v of JObj r ps \<Rightarrow> False | _ \<Rightarrow> True)"

text \<open>A value that is undefined, null, the empty string or white space only.\<close>

definition blank :: "jsval \<Rightarrow> bool" where
  "blank v =
     (case v of
        JUndefined \<Rightarrow> True
      | JNull \<Rightarrow> True
      | JStr s \<Rightarrow> list_all is_ws s
      | _ \<Rightarrow> False)"

section \<open>validateForm\<close>

record form_result =
  form_isValid :: bool
  form_errors :: "(string \<times> jv list) list"
  form_results :: "(string \<times> field_result) list"

text \<open>
  The rules of a form are an object from field names to RuleSpec lists, given by its own
  properties in the order \<^verbatim>\<open>Object.keys\<close> enumerates them. Assigning a property
  (\<^verbatim>\<open>results[fieldName] = result\<close>) replaces the value of an existing key in place and
  appends a new key at the end; field names are taken not to be array indices, which
  JavaScript would enumerate first.

  One call of the \<^verbatim>\<open>forEach\<close> callback: \<^verbatim>\<open>formData[fieldName] || ''\<close> replaces a missing
  (or otherwise falsy) value by the empty string.
\<close>

definition get_prop :: "jsobject \<Rightarrow> string \<Rightarrow> jsval" where
  "get_prop obj k = (case map_of obj k of None \<Rightarrow> JUndefined | Some v \<Rightarrow> v)"

definition field_value :: "jsobject \<Rightarrow> string \<Rightarrow> jsval" where
  "field_value formData fieldName =
     (if truthy (get_prop formData fieldName) then get_prop formData fieldName else JStr [])"

definition validate_entry ::
  "registry \<Rightarrow> jsobject \<Rightarrow> (string \<times> rulespec list) list \<Rightarrow> string \<Rightarrow> form_result
   \<Rightarrow> js_error + form_result" where
  "validate_entry reg formData validationRules fieldName acc =
     (case map_of validationRules fieldName of
        None \<Rightarrow> Inl TypeError
      | Some fieldRules \<Rightarrow>
          (case validateField reg (field_value formData fieldName) fieldRules formData of
             Inl e \<Rightarrow> Inl e
           | Inr res \<Rightarrow>
               (let acc' = acc\<lparr>form_results := AList.update fieldName res (form_results acc)\<rparr>
                in if \<not> isValid res
                   then Inr (acc'\<lparr>form_errors := AList.update fieldName (errors res) (form_errors acc'),
                                  form_isValid := False\<rparr>)
                   else Inr acc')))"

fun validate_entries ::
  "registry \<Rightarrow> jsobject \<Rightarrow> (string \<times> rulespec list) list \<Rightarrow> string list \<Rightarrow> form_result
   \<Rightarrow> js_error + form_result" where
  "validate_entries reg formData validationRules [] acc = Inr acc"
| "validate_entries reg formData validationRules (fieldName # rest) acc =
     (case validate_entry reg formData validationRules fieldName acc of
        Inl e \<Rightarrow> Inl e
      | Inr acc' \<Rightarrow> validate_entries reg formData validationRules rest acc')"

definition validateForm ::
  "registry \<Rightarrow> jsobject \<Rightarrow> (string \<times> rulespec list) list \<Rightarrow> js_error + form_result" where
  "validateForm reg formData validationRules =
     validate_entries reg formData validationRules (map fst validationRules)
       \<lparr>form_isValid = True, form_errors = [], form_results = []\<rparr>"



section \<open>The rule parser\<close>

text \<open>
  \<^verbatim>\<open>Form.parseRuleString\<close>. A parameter token becomes a number unless \<^verbatim>\<open>Number\<close> of it is
  NaN.
\<close>

definition coerce_param :: "string \<Rightarrow> jsval" where
  "coerce_param p = (let num = string_to_number p in if num = NaN then JStr p else JNum num)"

text \<open>
  One call of the \<^verbatim>\<open>forEach\<close> callback. The destructuring
  \<^verbatim>\<open>const [ruleName, params] = rule.split(':')\<close> takes the first two pieces and drops the
  rest; a missing second piece would leave \<^verbatim>\<open>params\<close> undefined and \<^verbatim>\<open>params.split\<close> would
  raise a TypeError.
\<close>

definition parse_rule :: "string \<Rightarrow> js_error + rulespec" where
  "parse_rule rule =
     (if CHR '':'' \<in> set rule then
        (case split_on CHR '':'' rule of
           ruleName # params # unused \<Rightarrow>
             Inr (RObj ruleName (Some (map coerce_param (split_on CHR '','' params))) None)
         | _ \<Rightarrow> Inl TypeError)
      else Inr (RName rule))"

fun parse_rules :: "string list \<Rightarrow> rulespec list \<Rightarrow> js_error + rulespec list" where
  "parse_rules [] acc = Inr acc"
| "parse_rules (rule # rest) acc =
     (case parse_rule rule of
        Inl e \<Rightarrow> Inl e
      | Inr r \<Rightarrow> parse_rules rest (acc @ [r]))"

definition parseRuleString :: "string \<Rightarrow> js_error + rulespec list" where
  "parseRuleString ruleString = parse_rules (split_on CHR ''|'' ruleString) []"

text \<open>
  The RuleSpec of one token, read off the token's text: without a colon the token is the
  rule name; with one, the name is the text before the first colon and the parameters
  are the comma-separated pieces, each coerced, of the text between the first colon and
  the next one (or the end of the token).
\<close>

definition token_spec :: "string \<Rightarrow> rulespec" where
  "token_spec t =
     (if CHR '':'' \<in> set t
      then RObj (takeWhile (\<lambda>c. c \<noteq> CHR '':'') t)
             (Some (map coerce_param
                (split_on CHR '',''
                   (takeWhile (\<lambda>c. c \<noteq> CHR '':'') (tl (dropWhile (\<lambda>c. c \<noteq> CHR '':'') t))))))
             None
      else RName t)"

text \<open>
  \<^verbatim>\<open>Form.parseValidationRules\<close>, over the fields that carry a \<^verbatim>\<open>data-validate\<close> attribute,
  each given by its name and the attribute's value: a field with an empty name or an
  empty attribute is skipped.
\<close>

fun parseValidationRules ::
  "(string \<times> string) list \<Rightarrow> (string \<times> rulespec list) list
   \<Rightarrow> js_error + (string \<times> rulespec list) list" where
  "parseValidationRules [] acc = Inr acc"
| "parseValidationRules ((fieldName, validationString) # rest) acc =
     (if fieldName \<noteq> [] \<and> validationString \<noteq> [] then
        (case parseRuleString validationString of
           Inl e \<Rightarrow> Inl e
         | Inr rs \<Rightarrow> parseValidationRules rest (AList.update fieldName rs acc))
      else parseValidationRules rest acc)"

section \<open>The submission controller\<close>

text \<open>
  The \<^verbatim>\<open>Form\<close> object together with the part of the document it reads and writes: its
  flag, its parsed rules, the current values of the form's fields (what
  \<^verbatim>\<open>extractFormData\<close> returns) and the element that
  \<^verbatim>\<open>querySelector('[type="submit"]')\<close> finds, if there is one. The display of error
  messages is presentation and is left out.
\<close>

record button =
  disabled :: bool
  classList :: "string list"
  textContent :: string
  originalText :: "string option"

record form =
  isSubmitting :: bool
  validationRules :: "(string \<times> rulespec list) list"
  formData :: jsobject
  submitButton :: "button option"

text \<open>\<^verbatim>\<open>classList.add\<close> and \<^verbatim>\<open>classList.remove\<close>\<close>

definition class_add :: "string list \<Rightarrow> string list \<Rightarrow> string list" where
  "class_add new cs = fold (\<lambda>c acc. if c \<in> set acc then acc else acc @ [c]) new cs"

definition class_remove :: "string list \<Rightarrow> string list \<Rightarrow> string list" where
  "class_remove old cs = filter (\<lambda>c. c \<notin> set old) cs"

text \<open>
  \<^verbatim>\<open>setSubmitState\<close>. \<^verbatim>\<open>dataset.originalText\<close> is absent until the first call with
  \<^verbatim>\<open>true\<close>; the label is put back only when the stored text is truthy.
\<close>

definition setSubmitState :: "bool \<Rightarrow> form \<Rightarrow> form" where
  "setSubmitState submitting f =
     (case submitButton f of
        None \<Rightarrow> f
      | Some b \<Rightarrow>
          if submitting then
            f\<lparr>submitButton := Some (b\<lparr>disabled := True,
                classList := class_add [''opacity-50'', ''cursor-not-allowed''] (classList b),
                originalText := Some (textContent b),
                textContent := ''Submitting...''\<rparr>)\<rparr>
          else
            (let b' = b\<lparr>disabled := False,
                       classList := class_remove [''opacity-50'', ''cursor-not-allowed''] (classList b)\<rparr>
             in f\<lparr>submitButton := Some
                   (case originalText b' of
                      None \<Rightarrow> b'
                    | Some t \<Rightarrow> if t \<noteq> [] then b'\<lparr>textContent := t\<rparr> else b')\<rparr>))"

text \<open>
  What a submission can be observed to do, and what surrounds it. A listener of
  \<^verbatim>\<open>form:submit\<close> or \<^verbatim>\<open>form:error\<close> runs inside \<^verbatim>\<open>dispatchEvent\<close>; it may call
  \<^verbatim>\<open>preventDefault\<close>, which has no effect because the events are created without
  \<^verbatim>\<open>cancelable\<close> (\<^verbatim>\<open>defaultPrevented\<close> stays false), and it may cause another submit
  event, which enters \<^verbatim>\<open>handleSubmit\<close> again before the first call has finished. \<^verbatim>\<open>handleSubmit\<close> contains no
  \<^verbatim>\<open>await\<close>, so this is the only way a second submission can arrive while the first is
  under way. The environment also says whether the body of the \<^verbatim>\<open>try\<close> raises, before or
  after the event is dispatched.
\<close>

datatype effect =
    Dispatch_submit jsobject
  | Dispatch_error js_error
  | Console_log jsobject
  | Console_error js_error

datatype listener_action = PreventDefault | Resubmit

datatype fault = NoFault | FaultBeforeDispatch | FaultAfterDispatch

record env =
  registry_of :: registry
  submit_listeners :: "listener_action list"
  error_listeners :: "listener_action list"
  fault_of :: fault

text \<open>
  The listeners of one dispatched event, in order, around a handler for the submissions
  they cause. An exception inside a listener (or a rejected promise of the nested
  \<^verbatim>\<open>handleSubmit\<close>) does not leave \<^verbatim>\<open>dispatchEvent\<close>. The result is the form, what was
  observed, and the event's \<^verbatim>\<open>defaultPrevented\<close>; \<open>None\<close> when the nested handler ran out
  of call depth.
\<close>

fun run_listeners ::
  "(form \<Rightarrow> (form \<times> effect list \<times> js_error option) option) \<Rightarrow> listener_action list
   \<Rightarrow> form \<Rightarrow> effect list \<Rightarrow> bool \<Rightarrow> (form \<times> effect list \<times> bool) option" where
  "run_listeners h [] f effs prevented = Some (f, effs, prevented)"
| "run_listeners h (PreventDefault # rest) f effs prevented =
     run_listeners h rest f effs prevented"
| "run_listeners h (Resubmit # rest) f effs prevented =
     (case h f of
        None \<Rightarrow> None
      | Some (f', effs', outcome) \<Rightarrow> run_listeners h rest f' (effs @ effs') prevented)"

text \<open>
  The \<^verbatim>\<open>catch\<close> and \<^verbatim>\<open>finally\<close> blocks of \<^verbatim>\<open>handleSubmit\<close>, after an error \<open>e\<close> of the
  \<^verbatim>\<open>try\<close> body, and the \<^verbatim>\<open>finally\<close> block alone.
\<close>

definition finally_block :: "form \<Rightarrow> form" where
  "finally_block f = setSubmitState False (f\<lparr>isSubmitting := False\<rparr>)"

definition catch_block ::
  "(form \<Rightarrow> (form \<times> effect list \<times> js_error option) option) \<Rightarrow> env \<Rightarrow> js_error
   \<Rightarrow> form \<Rightarrow> effect list \<Rightarrow> (form \<times> effect list \<times> js_error option) option" where
  "catch_block h E e f effs =
     (case run_listeners h (error_listeners E) f (effs @ [Console_error e, Dispatch_error e]) False of
        None \<Rightarrow> None
      | Some (f', effs', prevented) \<Rightarrow> Some (finally_block f', effs', None))"

text \<open>
  \<^verbatim>\<open>handleSubmit\<close>. The first argument bounds the depth of nested calls (the call stack);
  \<open>None\<close> means it was exceeded. The result is the form afterwards, what was observed,
  and the error the call ended with, if any (the returned promise is then rejected).
\<close>

primrec handleSubmit ::
  "nat \<Rightarrow> env \<Rightarrow> form \<Rightarrow> (form \<times> effect list \<times> js_error option) option" where
  "handleSubmit 0 E f = None"
| "handleSubmit (Suc d) E f =
     (if isSubmitting f then Some (f, [], None)
      else
        (case validateForm (registry_of E) (formData f) (validationRules f) of
           Inl e \<Rightarrow> Some (f, [], Some e)
         | Inr validation \<Rightarrow>
             if \<not> form_isValid validation then Some (f, [], None)
             else
               (let f1 = setSubmitState True (f\<lparr>isSubmitting := True\<rparr>) in
                if fault_of E = FaultBeforeDispatch
                then catch_block (handleSubmit d E) E TypeError f1 []
                else
                  (case run_listeners (handleSubmit d E) (submit_listeners E) f1
                          [Dispatch_submit (formData f1)] False of
                     None \<Rightarrow> None
                   | Some (f2, effs, prevented) \<Rightarrow>
                       if fault_of E = FaultAfterDispatch
                       then catch_block (handleSubmit d E) E TypeError f2 effs
                       else Some (finally_block f2,
                                  if \<not> prevented then effs @ [Console_log (formData f1)] else effs,
                                  None)))))"

text \<open>
  The form once a submission has passed validation: the flag is set and the button is in
  its submitting state. And the button once the \<^verbatim>\<open>finally\<close> block has run after that:
  enabled again, the two classes removed, the stored text put back unless it is empty.
\<close>

definition entered :: "form \<Rightarrow> form" where
  "entered f = setSubmitState True (f\<lparr>isSubmitting := True\<rparr>)"

definition after_submit :: "button \<Rightarrow> button" where
  "after_submit b =
     \<lparr>disabled = False,
      classList = class_remove [''opacity-50'', ''cursor-not-allowed'']
                    (class_add [''opacity-50'', ''cursor-not-allowed''] (classList b)),
      textContent = (if textContent b = [] then ''Submitting...'' else textContent b),
      originalText = Some (textContent b)\<rparr>"

text \<open>
  What a submission that passed validation is observed to do, by the environment's fault:
  the success event, then the log line; or the error report and the error event.
\<close>

definition observed :: "env \<Rightarrow> form \<Rightarrow> effect list" where
  "observed E f =
     (case fault_of E of
        FaultBeforeDispatch \<Rightarrow> [Console_error TypeError, Dispatch_error TypeError]
      | FaultAfterDispatch \<Rightarrow> [Dispatch_submit (formData f), Console_error TypeError, Dispatch_error TypeError]
      | NoFault \<Rightarrow> [Dispatch_submit (formData f), Console_log (formData f)])"

text \<open>The number of success events among the observed effects.\<close>

definition submit_count :: "effect list \<Rightarrow> nat" where
  "submit_count effs = length (filter (\<lambda>e. case e of Dispatch_submit d \<Rightarrow> True | _ \<Rightarrow> False) effs)"

text \<open>
  An example: a form whose submit button shows an icon and no text, and an environment
  in which a listener of \<^verbatim>\<open>form:submit\<close> submits the form once more.
\<close>

definition icon_button_form :: form where
  "icon_button_form =
     \<lparr>isSubmitting = False,
      validationRules = [(''name'', [RName ''required''])],
      formData = [(''name'', JStr ''Ada'')],
      submitButton = Some \<lparr>disabled = False, classList = [''btn''], textContent = [],
                            originalText = None\<rparr>\<rparr>"

definition resubmitting_env :: env where
  "resubmitting_env =
     \<lparr>registry_of = builtin example_platform, submit_listeners = [Resubmit],
      error_listeners = [], fault_of = NoFault\<rparr>"

section \<open>Unknown rule names\<close>

lemma js_error_only: "(e::js_error) = TypeError"
  by (cases e) simp

lemma run_rules_append:
  "run_rules reg v fd (xs @ ys) errs =
     (case run_rules reg v fd xs errs of Inl e \<Rightarrow> Inl e | Inr errs' \<Rightarrow> run_rules reg v fd ys errs')"
  by (induction xs arbitrary: errs) (auto split: sum.splits)

lemma check_rule_unknown_object:
  "rules reg name = None \<Longrightarrow>
   check_rule reg v fd (RObj name params msg) = Inr (Data (JBool True), Data (JStr []))"
  by (simp add: check_rule_def rule_of_def)

lemma check_rule_unknown_name:
  "rules reg name = None \<Longrightarrow> check_rule reg v fd (RName name) = Inl TypeError"
  by (simp add: check_rule_def rule_of_def)

lemma run_rules_skip_unknown_object:
  "rules reg name = None \<Longrightarrow>
   run_rules reg v fd (pre @ RObj name ps m # post) errs = run_rules reg v fd (pre @ post) errs"
  by (simp add: run_rules_append check_rule_unknown_object split: sum.splits)

lemma run_rules_raise_unknown_name:
  "rules reg name = None \<Longrightarrow>
   run_rules reg v fd (pre @ RName name # post) errs = Inl TypeError"
  by (auto simp add: run_rules_append check_rule_unknown_name js_error_only split: sum.splits)

lemma builtin_rules_nosuch: "rules (builtin P) ''nosuch'' = None"
  by (simp add: builtin_def builtin_rules_def)

text \<open>
  C1. A RuleSpec whose rule name has no entry in the registry. Declared as an object
  \<^verbatim>\<open>{rule, params, message}\<close> it is inert: wherever it stands in the rule list, the result
  is the result of the list without it. Declared as a bare string it is not inert:
  \<^verbatim>\<open>this.rules[rule]\<close> is undefined and calling it raises a TypeError, whatever else the
  list holds; the guard \<^verbatim>\<open>if (this.rules[ruleName])\<close> of the object branch is missing
  from the string branch.
\<close>

theorem C1_unknown_rule_name:
  assumes "rules reg name = None"
  shows "validateField reg v (pre @ RObj name ps m # post) fd = validateField reg v (pre @ post) fd
       \<and> validateField reg v (pre @ RName name # post) fd = Inl TypeError"
  using assms
  by (simp add: validateField_def run_rules_skip_unknown_object run_rules_raise_unknown_name)

theorem C1_unknown_rule_name_witness:
  "rules (builtin example_platform) ''nosuch'' = None
   \<and> validateField (builtin example_platform) (JStr ''x'')
        ([RName ''required''] @ RObj ''nosuch'' None None # []) []
      = validateField (builtin example_platform) (JStr ''x'') ([RName ''required''] @ []) []
   \<and> validateField (builtin example_platform) (JStr ''x'')
        ([RName ''required''] @ RName ''nosuch'' # []) [] = Inl TypeError"
  using C1_unknown_rule_name [OF builtin_rules_nosuch,
      of example_platform "JStr ''x''" "[RName ''required'']" None None "[]" "[]"]
  by (simp add: builtin_rules_nosuch)

section \<open>The loop of validateField\<close>

lemma run_rules_collect:
  "run_rules reg v fd rs errs =
     (if list_ex (\<lambda>r. check_rule reg v fd r = Inl TypeError) rs then Inl TypeError
      else Inr (errs @ concat (map (pushed reg v fd) rs)))"
proof (induction rs arbitrary: errs)
  case Nil
  then show ?case by simp
next
  case (Cons r rs)
  show ?case
  proof (cases "check_rule reg v fd r")
    case (Inl e)
    then show ?thesis by (simp add: js_error_only [of e])
  next
    case (Inr p)
    obtain ok m where p: "p = (ok, m)" by (cases p)
    with Inr have "pushed reg v fd r = (if truthy_jv ok then [] else [m])"
      by (simp add: pushed_def)
    with Inr p show ?thesis
      by (simp add: Cons.IH)
  qed
qed

lemma resolve_message_spec:
  "resolve_message reg n (spec_parameters (RObj n ps m)) m = Inr msg \<Longrightarrow>
   spec_message reg (RObj n ps m) = msg"
  by (cases m)
     (auto simp add: resolve_message_def spec_message_def spec_override_def spec_name_def
        Let_def split: if_splits)

lemma pushed_object:
  assumes "check_rule reg v (JObj 0 fd) (RObj n ps m) \<noteq> Inl TypeError"
  shows "pushed reg v (JObj 0 fd) (RObj n ps m) =
     (if spec_fails reg v fd (RObj n ps m) then [spec_message reg (RObj n ps m)] else [])"
proof (cases "truthy_jv (rule_of reg n)")
  case False
  then show ?thesis
    by (simp add: pushed_def check_rule_def spec_fails_def spec_name_def)
next
  case known: True
  define xs where "xs = spec_parameters (RObj n ps m)"
  have xs: "(case ps of None \<Rightarrow> [] | Some ps \<Rightarrow> ps) = xs"
    by (simp add: xs_def spec_parameters_def)
  define pr where "pr = (if xs \<noteq> [] then call (rule_of reg n) xs else Inr (rule_of reg n))"
  have chk: "check_rule reg v (JObj 0 fd) (RObj n ps m) =
      (case pr of Inl e \<Rightarrow> Inl e
       | Inr g \<Rightarrow> (case call g [v, JObj 0 fd] of Inl e \<Rightarrow> Inl e
          | Inr ok \<Rightarrow> (case resolve_message reg n xs m of Inl e \<Rightarrow> Inl e | Inr msg \<Rightarrow> Inr (ok, msg))))"
    using known by (simp add: check_rule_def xs pr_def)
  have sf: "spec_fails reg v fd (RObj n ps m) =
      (case pr of Inl e \<Rightarrow> False
       | Inr g \<Rightarrow> (case call g [v, JObj 0 fd] of Inl e \<Rightarrow> False | Inr ok \<Rightarrow> \<not> truthy_jv ok))"
    using known by (simp add: spec_fails_def spec_name_def pr_def xs_def)
  from assms chk obtain g where g: "pr = Inr g"
    by (cases pr) (auto simp add: js_error_only)
  from assms chk g obtain ok where ok: "call g [v, JObj 0 fd] = Inr ok"
    by (cases "call g [v, JObj 0 fd]") (auto simp add: js_error_only)
  from assms chk g ok obtain msg where msg: "resolve_message reg n xs m = Inr msg"
    by (cases "resolve_message reg n xs m") (auto simp add: js_error_only)
  have "spec_message reg (RObj n ps m) = msg"
    using msg resolve_message_spec by (simp add: xs_def)
  then show ?thesis
    by (simp add: pushed_def chk sf g ok msg)
qed

lemma pushed_name:
  "check_rule reg v (JObj 0 fd) (RName n) \<noteq> Inl TypeError \<Longrightarrow>
   pushed reg v (JObj 0 fd) (RName n) =
     (if spec_fails reg v fd (RName n) then [message_of reg n] else [])"
  unfolding pushed_def check_rule_def spec_fails_def spec_name_def spec_parameters_def
  by (cases "rule_of reg n") (auto simp add: js_error_only split: sum.splits)

lemma completes_no_raise:
  assumes "spec_completes reg v fd r"
  shows "check_rule reg v (JObj 0 fd) r \<noteq> Inl TypeError"
proof (cases r)
  case (RName n)
  with assms show ?thesis
    by (simp add: spec_completes_def check_rule_def returns_def split: sum.splits)
next
  case (RObj n ps m)
  show ?thesis
  proof (cases "truthy_jv (rule_of reg n)")
    case False
    with RObj show ?thesis by (simp add: check_rule_def)
  next
    case known: True
    define xs where "xs = spec_parameters (RObj n ps m)"
    have xs: "(case ps of None \<Rightarrow> [] | Some ps \<Rightarrow> ps) = xs"
      by (simp add: xs_def spec_parameters_def)
    define pr where "pr = (if xs \<noteq> [] then call (rule_of reg n) xs else Inr (rule_of reg n))"
    have chk: "check_rule reg v (JObj 0 fd) (RObj n ps m) =
        (case pr of Inl e \<Rightarrow> Inl e
         | Inr g \<Rightarrow> (case call g [v, JObj 0 fd] of Inl e \<Rightarrow> Inl e
            | Inr ok \<Rightarrow> (case resolve_message reg n xs m of Inl e \<Rightarrow> Inl e | Inr msg \<Rightarrow> Inr (ok, msg))))"
      using known by (simp add: check_rule_def xs pr_def)
    have sc: "(case pr of Inl e \<Rightarrow> False
         | Inr g \<Rightarrow> returns (call g [v, JObj 0 fd]) \<and>
             (spec_override (RObj n ps m) \<noteq> None \<or> \<not> is_function (message_of reg n) \<or>
              returns (call (message_of reg n) xs)))"
    proof -
      have "spec_completes reg v fd (RObj n ps m)" using assms RObj by simp
      then show ?thesis
        unfolding pr_def xs_def
        by (simp only: spec_completes_def rulespec.case known if_True)
    qed
    then obtain g where g: "pr = Inr g" by (cases pr) auto
    with sc obtain ok where ok: "call g [v, JObj 0 fd] = Inr ok"
      by (cases "call g [v, JObj 0 fd]") (auto simp add: returns_def)
    from sc g have "spec_override (RObj n ps m) \<noteq> None \<or> \<not> is_function (message_of reg n) \<or>
              returns (call (message_of reg n) xs)" by simp
    then have "\<exists>msg. resolve_message reg n xs m = Inr msg"
      by (cases m; cases "call (message_of reg n) xs")
         (auto simp add: resolve_message_def spec_override_def returns_def Let_def split: if_splits)
    then obtain msg where "resolve_message reg n xs m = Inr msg" ..
    with RObj chk g ok show ?thesis by simp
  qed
qed

lemma pushed_spec:
  assumes "spec_completes reg v fd r" and "message_plain reg v fd r"
  shows "pushed reg v (JObj 0 fd) r = (if spec_fails reg v fd r then [spec_message reg r] else [])"
proof (cases r)
  case (RName n)
  have "spec_fails reg v fd (RName n) \<Longrightarrow> spec_message reg (RName n) = message_of reg n"
    using assms(2) RName
    by (simp add: message_plain_def spec_message_def spec_override_def spec_name_def)
  with completes_no_raise [OF assms(1)] RName show ?thesis
    by (simp add: pushed_name)
next
  case (RObj n ps m)
  with completes_no_raise [OF assms(1)] show ?thesis
    by (simp add: pushed_object)
qed

lemma concat_pushed:
  "list_all (spec_completes reg v fd) rs \<Longrightarrow> list_all (message_plain reg v fd) rs \<Longrightarrow>
   concat (map (pushed reg v (JObj 0 fd)) rs) =
     map (spec_message reg) (filter (spec_fails reg v fd) rs)"
  by (induction rs) (simp_all add: pushed_spec)

lemma completes_no_raise_all:
  "list_all (spec_completes reg v fd) rs \<Longrightarrow>
   \<not> list_ex (\<lambda>r. check_rule reg v (JObj 0 fd) r = Inl TypeError) rs"
  by (induction rs) (simp_all add: completes_no_raise)

text \<open>
  C4. For every registry, value, rule list and form snapshot such that every rule of the
  list can be evaluated (none raises) and no failing bare name has a function as its
  registry message: \<^verbatim>\<open>validateField\<close> returns a result whose errors are the
  resolved messages of the failing rules, one per failing rule, in the order the rules
  are declared (all of them, not only the first), and whose \<^verbatim>\<open>isValid\<close> is
  \<^verbatim>\<open>errors.length === 0\<close>. The resolved message is the override when the RuleSpec
  carries one, else the registry's message, called on the parameters when it is a
  function.
\<close>

theorem C4_validateField_collects:
  assumes "list_all (spec_completes reg v fd) rs"
    and "list_all (message_plain reg v fd) rs"
  shows "validateField reg v rs fd =
     Inr \<lparr>isValid = (length (map (spec_message reg) (filter (spec_fails reg v fd) rs)) = 0),
          errors = map (spec_message reg) (filter (spec_fails reg v fd) rs)\<rparr>"
  using assms
  by (simp add: validateField_def run_rules_collect completes_no_raise_all concat_pushed)

lemma rule_of_builtin:
  "rule_of (builtin P) ''required'' = Func rule_required"
  "rule_of (builtin P) ''min'' = Func rule_min"
  "rule_of (builtin P) ''max'' = Func rule_max"
  "rule_of (builtin P) ''integer'' = Func rule_integer"
  "rule_of (builtin P) ''email'' = Func (rule_email P)"
  "rule_of (builtin P) ''minLength'' = Func rule_minLength"
  "rule_of (builtin P) ''pattern'' = Func rule_pattern"
  by (simp_all add: rule_of_def builtin_def builtin_rules_def)

lemma message_of_builtin:
  "message_of (builtin P) ''required'' = Data (JStr ''This field is required'')"
  "message_of (builtin P) ''min'' = msg_template P ''Must be at least '' []"
  "message_of (builtin P) ''max'' = msg_template P ''Must not exceed '' []"
  "message_of (builtin P) ''integer'' = Data (JStr ''Please enter a whole number'')"
  "message_of (builtin P) ''email'' = Data (JStr ''Please enter a valid email address'')"
  "message_of (builtin P) ''minLength'' = msg_template P ''Must be at least '' '' characters''"
  "message_of (builtin P) ''pattern'' = Data (JStr ''Please enter a valid format'')"
  by (simp_all add: message_of_def builtin_def builtin_messages_def)

lemma form_value_convertible: "form_value v \<Longrightarrow> \<not> unconvertible v"
  by (cases v) (simp_all add: form_value_def unconvertible_def)

lemma string_to_number_abc: "string_to_number ''abc'' = NaN"
  by code_simp

lemma num_to_string_5: "num_to_string P (Fin 5) = ''5''"
  by (simp add: num_to_string_def dec_string.simps)

lemma email_abc: "regex_test emailRegex ''abc'' = False"
  by code_simp

lemma example_rule_minLength:
  "spec_completes (builtin P) (JStr ''abc'') fd (RObj ''minLength'' (Some [JNum (Fin 5)]) None)"
  "spec_fails (builtin P) (JStr ''abc'') fd (RObj ''minLength'' (Some [JNum (Fin 5)]) None)"
  "spec_message (builtin P) (RObj ''minLength'' (Some [JNum (Fin 5)]) None) =
     Data (JStr ''Must be at least 5 characters'')"
  by (simp_all add: spec_completes_def spec_fails_def spec_message_def spec_override_def
      spec_parameters_def spec_name_def rule_of_builtin message_of_builtin rule_minLength_def
      msg_template_def to_number_def to_string_def unconvertible_def arg_def result_def
      returns_def num_to_string_5)

lemma example_rule_email:
  "spec_completes (builtin P) (JStr ''abc'') fd (RName ''email'')"
  "spec_fails (builtin P) (JStr ''abc'') fd (RName ''email'')"
  "spec_message (builtin P) (RName ''email'') = Data (JStr ''Please enter a valid email address'')"
  by (simp_all add: spec_completes_def spec_fails_def spec_message_def spec_override_def
      spec_parameters_def spec_name_def rule_of_builtin message_of_builtin rule_email_def
      to_string_def unconvertible_def arg_def result_def returns_def email_abc
      del: regex_test.simps)

lemma example_rule_max:
  "spec_completes (builtin P) (JStr ''abc'') fd (RObj ''max'' (Some [JNum (Fin 5)]) (Some ''too big''))"
  "spec_fails (builtin P) (JStr ''abc'') fd (RObj ''max'' (Some [JNum (Fin 5)]) (Some ''too big''))"
  "spec_message (builtin P) (RObj ''max'' (Some [JNum (Fin 5)]) (Some ''too big'')) =
     Data (JStr ''too big'')"
  by (simp_all add: spec_completes_def spec_fails_def spec_message_def spec_override_def
      spec_parameters_def spec_name_def rule_of_builtin message_of_builtin rule_max_def
      msg_template_def to_number_def to_string_def unconvertible_def arg_def result_def
      returns_def string_to_number_abc)

theorem C4_validateField_collects_witness:
  "list_all (spec_completes (builtin example_platform) (JStr ''abc'') [])
     [RObj ''minLength'' (Some [JNum (Fin 5)]) None, RName ''email'',
      RObj ''max'' (Some [JNum (Fin 5)]) (Some ''too big'')]
   \<and> list_all (message_plain (builtin example_platform) (JStr ''abc'') [])
     [RObj ''minLength'' (Some [JNum (Fin 5)]) None, RName ''email'',
      RObj ''max'' (Some [JNum (Fin 5)]) (Some ''too big'')]
   \<and> validateField (builtin example_platform) (JStr ''abc'')
       [RObj ''minLength'' (Some [JNum (Fin 5)]) None, RName ''email'',
        RObj ''max'' (Some [JNum (Fin 5)]) (Some ''too big'')] []
     = Inr \<lparr>isValid = False,
            errors = [Data (JStr ''Must be at least 5 characters''),
                      Data (JStr ''Please enter a valid email address''),
                      Data (JStr ''too big'')]\<rparr>"
  using C4_validateField_collects [of "builtin example_platform" "JStr ''abc''" "[]"
      "[RObj ''minLength'' (Some [JNum (Fin 5)]) None, RName ''email'',
        RObj ''max'' (Some [JNum (Fin 5)]) (Some ''too big'')]"]
  by (simp add: example_rule_minLength example_rule_email example_rule_max message_plain_def
      message_of_builtin)

text \<open>
  The first condition cannot be dropped: \<^verbatim>\<open>validateField\<close> handles no exception, so a
  rule that raises ends the call. For the rule string \<^verbatim>\<open>required|pattern:a\<close> and the empty
  value, \<^verbatim>\<open>required\<close> fails, but the parameter of \<^verbatim>\<open>pattern\<close> is a string, \<^verbatim>\<open>regex.test\<close> is
  not a function, and \<^verbatim>\<open>validateField\<close> raises: no result is returned and the failure of
  \<^verbatim>\<open>required\<close> is not collected.
\<close>

theorem C4_raising_rule_counterexample:
  "spec_fails (builtin example_platform) (JStr []) [] (RName ''required'')
   \<and> validateField (builtin example_platform) (JStr [])
        [RName ''required'', RObj ''pattern'' (Some [JStr ''a'']) None] [] = Inl TypeError"
  by (simp add: spec_fails_def spec_name_def spec_parameters_def validateField_def check_rule_def
      rule_of_builtin message_of_builtin rule_required_def rule_pattern_def arg_def result_def
      trim_def)

text \<open>
  Nor the second: with a registry extended by \<^verbatim>\<open>addRule\<close> the two forms of RuleSpec can
  differ. For a rule that is not curried and has a function as its message, the bare name
  puts the function itself into the errors, the object form its text.
\<close>

lemma extended_registry_bare_name:
  "validateField (addRule ''never'' never_rule never_message (builtin P)) v [RName ''never''] fd =
     Inr \<lparr>isValid = False, errors = [never_message]\<rparr>
   \<and> validateField (addRule ''never'' never_rule never_message (builtin P)) v [RObj ''never'' None None] fd =
     Inr \<lparr>isValid = False, errors = [Data (JStr ''Never valid'')]\<rparr>"
  by (simp add: validateField_def check_rule_def resolve_message_def rule_of_def message_of_def
      addRule_def never_rule_def never_message_def result_def)

section \<open>The rules required, min, max and integer\<close>

lemma dropWhile_all_iff: "(\<forall>x\<in>set (dropWhile Q s). Q x) \<longleftrightarrow> (\<forall>x\<in>set s. Q x)"
proof
  assume h: "\<forall>x\<in>set (dropWhile Q s). Q x"
  have "set s = set (takeWhile Q s) \<union> set (dropWhile Q s)"
    by (metis set_append takeWhile_dropWhile_id)
  with h show "\<forall>x\<in>set s. Q x"
    by (auto dest: set_takeWhileD)
next
  assume "\<forall>x\<in>set s. Q x"
  then show "\<forall>x\<in>set (dropWhile Q s). Q x"
    by (auto dest: set_dropWhileD)
qed

lemma trim_empty_iff: "trim s = [] \<longleftrightarrow> list_all is_ws s"
  by (simp add: trim_def list_all_iff dropWhile_all_iff)

lemma rule_required_blank: "rule_required (v # args) = result (\<not> blank v)"
  by (cases v) (auto simp add: rule_required_def arg_def blank_def trim_empty_iff result_def Let_def)

lemma check_required:
  "check_rule (builtin P) v fd (RName ''required'') =
     Inr (Data (JBool (\<not> blank v)), Data (JStr ''This field is required''))"
  by (simp add: check_rule_def rule_of_builtin message_of_builtin rule_required_blank result_def)

lemma check_min:
  "\<not> unconvertible v \<Longrightarrow> \<not> unconvertible p \<Longrightarrow>
   check_rule (builtin P) v fd (RObj ''min'' (Some (p # ps)) None) =
     Inr (Data (JBool (number_value v \<noteq> NaN \<and> num_le (number_value p) (number_value v))),
          Data (JStr (''Must be at least '' @ text_value P p)))"
  by (simp add: check_rule_def resolve_message_def rule_of_builtin message_of_builtin
      rule_min_def msg_template_def to_number_def to_string_def result_def arg_def Let_def)

lemma check_max:
  "\<not> unconvertible v \<Longrightarrow> \<not> unconvertible p \<Longrightarrow>
   check_rule (builtin P) v fd (RObj ''max'' (Some (p # ps)) None) =
     Inr (Data (JBool (number_value v \<noteq> NaN \<and> num_le (number_value v) (number_value p))),
          Data (JStr (''Must not exceed '' @ text_value P p)))"
  by (simp add: check_rule_def resolve_message_def rule_of_builtin message_of_builtin
      rule_max_def msg_template_def to_number_def to_string_def result_def arg_def Let_def)

lemma check_integer:
  "\<not> unconvertible v \<Longrightarrow>
   check_rule (builtin P) v fd (RName ''integer'') =
     Inr (Data (JBool (is_integer (number_value v))), Data (JStr ''Please enter a whole number''))"
  by (simp add: check_rule_def rule_of_builtin message_of_builtin rule_integer_def to_number_def
      result_def arg_def)

lemma convertible_examples:
  "\<not> unconvertible (JStr s)" "\<not> unconvertible (JNum n)"
  by (simp_all add: unconvertible_def)

lemma string_to_number_empty: "string_to_number [] = Fin 0"
  by (simp add: string_to_number_def trim_def)

lemma string_to_number_5: "string_to_number ''5'' = Fin 5"
  by code_simp

lemma string_to_number_15: "string_to_number ''15'' = Fin 15"
  by code_simp

lemma num_to_string_10: "num_to_string P (Fin 10) = ''10''"
  by (simp add: num_to_string_def dec_string.simps)

text \<open>
  C7. The rules \<^verbatim>\<open>min\<close> and \<^verbatim>\<open>max\<close> on the values a form and a rule string can hold
  (primitives and arrays of strings, for the value \<open>v\<close> and for the bound \<open>p\<close>, the first
  parameter; further parameters are ignored): \<^verbatim>\<open>Number\<close> of the value does not raise, and
  \<^verbatim>\<open>validateField\<close> returns a result for every snapshot. When \<^verbatim>\<open>Number\<close> of the value is
  NaN (a non-numeric value) the rule fails, otherwise it compares the number with the
  bound. In particular \<^verbatim>\<open>"5"\<close> against \<^verbatim>\<open>min 10\<close> is invalid and \<^verbatim>\<open>"15"\<close> is valid.
\<close>

theorem C7_min_max_numeric:
  assumes "form_value v" and "form_value p"
  shows "to_number v = Inr (number_value v)
   \<and> validateField (builtin P) v [RObj ''min'' (Some (p # ps)) None] fd =
     Inr \<lparr>isValid = (if number_value v = NaN then False else num_le (number_value p) (number_value v)),
          errors = (if number_value v = NaN then [Data (JStr (''Must be at least '' @ text_value P p))]
                    else if num_le (number_value p) (number_value v) then []
                    else [Data (JStr (''Must be at least '' @ text_value P p))])\<rparr>
   \<and> validateField (builtin P) v [RObj ''max'' (Some (p # ps)) None] fd =
     Inr \<lparr>isValid = (if number_value v = NaN then False else num_le (number_value v) (number_value p)),
          errors = (if number_value v = NaN then [Data (JStr (''Must not exceed '' @ text_value P p))]
                    else if num_le (number_value v) (number_value p) then []
                    else [Data (JStr (''Must not exceed '' @ text_value P p))])\<rparr>
   \<and> validateField (builtin P) (JStr ''5'') [RObj ''min'' (Some [JNum (Fin 10)]) None] [] =
     Inr \<lparr>isValid = False, errors = [Data (JStr ''Must be at least 10'')]\<rparr>
   \<and> validateField (builtin P) (JStr ''15'') [RObj ''min'' (Some [JNum (Fin 10)]) None] [] =
     Inr \<lparr>isValid = True, errors = []\<rparr>"
  using form_value_convertible [OF assms(1)] form_value_convertible [OF assms(2)]
  by (simp add: validateField_def check_min check_max convertible_examples to_number_def
      string_to_number_5 string_to_number_15 num_to_string_10)

theorem C7_min_max_numeric_witness:
  "form_value (JStr ''abc'') \<and> form_value (JNum (Fin 10))
   \<and> to_number (JStr ''abc'') = Inr NaN
   \<and> validateField (builtin example_platform) (JStr ''abc'')
        [RObj ''min'' (Some [JNum (Fin 10)]) None] [] =
       Inr \<lparr>isValid = False, errors = [Data (JStr ''Must be at least 10'')]\<rparr>
   \<and> validateField (builtin example_platform) (JStr ''abc'')
        [RObj ''max'' (Some [JNum (Fin 10)]) None] [] =
       Inr \<lparr>isValid = False, errors = [Data (JStr ''Must not exceed 10'')]\<rparr>"
  using C7_min_max_numeric [of "JStr ''abc''" "JNum (Fin 10)" example_platform "[]" "[]"]
  by (simp add: form_value_def string_to_number_abc num_to_string_10)

text \<open>
  C8. The rule \<^verbatim>\<open>required\<close> fails exactly on the values that are undefined, null, the
  empty string or white space only: for each of them \<^verbatim>\<open>validateField\<close> against
  \<^verbatim>\<open>["required"]\<close> returns \<^verbatim>\<open>isValid = false\<close> with the message of \<^verbatim>\<open>required\<close> as its
  only error, and for every other value it returns \<^verbatim>\<open>isValid = true\<close>.
\<close>

theorem C8_required_rejects_blank:
  "validateField (builtin P) v [RName ''required''] fd =
     Inr \<lparr>isValid = (\<not> blank v),
          errors = (if blank v then [Data (JStr ''This field is required'')] else [])\<rparr>"
  by (simp add: validateField_def check_required)

text \<open>
  C9. The rule \<^verbatim>\<open>integer\<close> accepts the empty string: \<^verbatim>\<open>Number("")\<close> is \<open>0\<close>, which is an
  integer, so \<^verbatim>\<open>validateField("", ["integer"], {})\<close> is valid. Likewise the empty string
  against \<^verbatim>\<open>min n\<close> is valid exactly when \<open>n \<le> 0\<close>.
\<close>

theorem C9_integer_accepts_empty:
  "to_number (JStr []) = Inr (Fin 0)
   \<and> is_integer (number_value (JStr []))
   \<and> validateField (builtin P) (JStr []) [RName ''integer''] fd = Inr \<lparr>isValid = True, errors = []\<rparr>
   \<and> validateField (builtin P) (JStr []) [RObj ''min'' (Some [JNum n]) None] fd =
       Inr \<lparr>isValid = num_le n (Fin 0),
            errors = (if num_le n (Fin 0) then []
                      else [Data (JStr (''Must be at least '' @ text_value P (JNum n)))])\<rparr>"
  by (simp add: validateField_def check_integer check_min convertible_examples to_number_def
      string_to_number_empty)

section \<open>validateForm aggregates the fields\<close>












section \<open>The rule parser is total\<close>

lemma split_on_unfold:
  "split_on c s =
     takeWhile (\<lambda>x. x \<noteq> c) s #
       (if c \<in> set s then split_on c (tl (dropWhile (\<lambda>x. x \<noteq> c) s)) else [])"
  by (induction s) (auto split: list.splits)

lemma split_on_absent: "c \<notin> set s \<Longrightarrow> split_on c s = [s]"
  by (induction s) auto

lemma split_on_first: "c \<notin> set a \<Longrightarrow> split_on c (a @ c # b) = a # split_on c b"
  by (induction a) auto

lemma parse_rule_total: "parse_rule t = Inr (token_spec t)"
proof (cases "CHR '':'' \<in> set t")
  case False
  then show ?thesis by (simp add: parse_rule_def token_spec_def)
next
  case True
  define rest where "rest = tl (dropWhile (\<lambda>c. c \<noteq> CHR '':'') t)"
  have "split_on CHR '':'' t = takeWhile (\<lambda>c. c \<noteq> CHR '':'') t # split_on CHR '':'' rest"
    using True by (subst split_on_unfold) (simp add: rest_def)
  also have "split_on CHR '':'' rest =
      takeWhile (\<lambda>c. c \<noteq> CHR '':'') rest #
        (if CHR '':'' \<in> set rest then split_on CHR '':'' (tl (dropWhile (\<lambda>c. c \<noteq> CHR '':'') rest)) else [])"
    by (rule split_on_unfold)
  finally show ?thesis
    using True by (simp add: parse_rule_def token_spec_def rest_def)
qed

lemma parse_rules_total: "parse_rules ts acc = Inr (acc @ map token_spec ts)"
  by (induction ts arbitrary: acc) (simp_all add: parse_rule_total)

lemma parseRuleString_total: "parseRuleString s = Inr (map token_spec (split_on CHR ''|'' s))"
  by (simp add: parseRuleString_def parse_rules_total)

lemma token_spec_name: "spec_name (token_spec t) = takeWhile (\<lambda>c. c \<noteq> CHR '':'') t"
proof (cases "CHR '':'' \<in> set t")
  case True
  then show ?thesis by (simp add: token_spec_def spec_name_def)
next
  case False
  then have "\<forall>x\<in>set t. x \<noteq> CHR '':''" by auto
  then have eq: "takeWhile (\<lambda>c. c \<noteq> CHR '':'') t = t"
    by (simp only: takeWhile_eq_all_conv)
  have "spec_name (token_spec t) = t"
    using False by (simp add: token_spec_def spec_name_def)
  with eq show ?thesis by (simp only:)
qed

text \<open>
  C6. Parsing is a function of the rule string alone and never raises: every rule string
  has exactly one parse. The parse has one RuleSpec per \<^verbatim>\<open>|\<close>-separated token, in order,
  and keeps each rule name as written, whether or not the registry knows it (the registry
  is not consulted). A parameter token becomes a number exactly when \<^verbatim>\<open>Number\<close> of it is
  not NaN, and is kept as the string otherwise.
\<close>

theorem C6_parse_total_deterministic:
  "(\<exists>!rs. parseRuleString s = Inr rs)
   \<and> parseRuleString s = Inr (map token_spec (split_on CHR ''|'' s))
   \<and> spec_name (token_spec t) = takeWhile (\<lambda>c. c \<noteq> CHR '':'') t
   \<and> (coerce_param p = JNum (string_to_number p) \<longleftrightarrow> string_to_number p \<noteq> NaN)
   \<and> (coerce_param p = JStr p \<longleftrightarrow> string_to_number p = NaN)"
  by (simp add: parseRuleString_total coerce_param_def Let_def token_spec_name)

text \<open>
  C10. A token with two or more colons, \<open>name:mid:rest\<close> where \<open>name\<close> and \<open>mid\<close> hold no
  colon: its RuleSpec has the parameters of \<open>mid\<close> alone, and is the RuleSpec of
  \<open>name:mid\<close>; whatever follows the second colon is dropped. So it is for
  \<^verbatim>\<open>parseRuleString\<close> on a rule string that consists of this token.
\<close>

theorem C10_extra_colons_dropped:
  assumes "CHR '':'' \<notin> set name" and "CHR '':'' \<notin> set mid"
  shows "parse_rule (name @ CHR '':'' # mid @ CHR '':'' # rest) =
           Inr (RObj name (Some (map coerce_param (split_on CHR '','' mid))) None)
       \<and> parse_rule (name @ CHR '':'' # mid @ CHR '':'' # rest) = parse_rule (name @ CHR '':'' # mid)
       \<and> (CHR ''|'' \<notin> set (name @ mid @ rest) \<longrightarrow>
            parseRuleString (name @ CHR '':'' # mid @ CHR '':'' # rest) =
              Inr [RObj name (Some (map coerce_param (split_on CHR '','' mid))) None])"
  using assms
  by (simp add: parseRuleString_def parse_rule_def split_on_first split_on_absent)

lemma coerce_a: "coerce_param ''a'' = JStr ''a''"
  by code_simp

theorem C10_extra_colons_dropped_witness:
  "CHR '':'' \<notin> set ''pattern'' \<and> CHR '':'' \<notin> set ''a''
   \<and> CHR ''|'' \<notin> set (''pattern'' @ ''a'' @ ''b'')
   \<and> parse_rule ''pattern:a:b'' = Inr (RObj ''pattern'' (Some [JStr ''a'']) None)
   \<and> parse_rule ''pattern:a:b'' = parse_rule ''pattern:a''
   \<and> parseRuleString ''pattern:a:b'' = Inr [RObj ''pattern'' (Some [JStr ''a'']) None]"
  using C10_extra_colons_dropped [of "''pattern''" "''a''" "''b''"]
  by (auto simp add: coerce_a)

section \<open>The state machine of the submission controller\<close>

lemma setSubmitState_fields [simp]:
  "isSubmitting (setSubmitState b f) = isSubmitting f"
  "formData (setSubmitState b f) = formData f"
  "validationRules (setSubmitState b f) = validationRules f"
  by (simp_all add: setSubmitState_def Let_def split: option.splits)

lemma handleSubmit_busy:
  "isSubmitting f \<Longrightarrow> handleSubmit (Suc d) E f = Some (f, [], None)"
  by simp

lemma run_listeners_noop:
  assumes "h f = Some (f, [], out)"
  shows "run_listeners h acts f effs prevented =
           Some (f, effs, prevented)"
proof (induction acts arbitrary: prevented)
  case Nil
  then show ?case by simp
next
  case (Cons a acts)
  then show ?case using assms by (cases a) simp_all
qed

lemma handleSubmit_idle:
  assumes "\<not> isSubmitting f"
  shows "handleSubmit (Suc (Suc d)) E f =
     Some (case validateForm (registry_of E) (formData f) (validationRules f) of
             Inl e \<Rightarrow> (f, [], Some e)
           | Inr validation \<Rightarrow>
               if \<not> form_isValid validation then (f, [], None)
               else (finally_block (entered f), observed E f, None))"
proof (cases "validateForm (registry_of E) (formData f) (validationRules f)")
  case (Inl e)
  with assms show ?thesis by simp
next
  case (Inr validation)
  show ?thesis
  proof (cases "form_isValid validation")
    case False
    with assms Inr show ?thesis by simp
  next
    case True
    have busy: "isSubmitting (entered f)" by (simp add: entered_def)
    have nested: "handleSubmit (Suc d) E (entered f) = Some (entered f, [], None)"
      using busy by (rule handleSubmit_busy)
    note rl = run_listeners_noop [of "handleSubmit (Suc d) E" "entered f" None, OF nested]
    have fd: "formData (entered f) = formData f" by (simp add: entered_def)
    show ?thesis
      apply (subst handleSubmit.simps(2))
      apply (simp only: entered_def [symmetric] Let_def)
      using assms Inr True
      by (cases "fault_of E")
         (simp_all add: rl fd catch_block_def observed_def del: handleSubmit.simps)
  qed
qed

lemma finally_entered:
  "finally_block (entered f) =
     f\<lparr>isSubmitting := False, submitButton := map_option after_submit (submitButton f)\<rparr>"
  by (cases "submitButton f")
     (simp_all add: finally_block_def entered_def setSubmitState_def after_submit_def Let_def)

lemma example_validation:
  "validateForm (builtin example_platform) [(''name'', JStr ''Ada'')] [(''name'', [RName ''required''])] =
     Inr \<lparr>form_isValid = True, form_errors = [],
          form_results = [(''name'', \<lparr>isValid = True, errors = []\<rparr>)]\<rparr>"
  by (simp add: validateForm_def validate_entry_def field_value_def get_prop_def validateField_def
      check_required blank_def is_ws_def)

text \<open>
  C2. A call of \<^verbatim>\<open>handleSubmit\<close> that passes the guard completes (two levels of call depth
  suffice, whatever the listeners do) and leaves \<^verbatim>\<open>isSubmitting\<close> false on every path:
  validation raised or rejected (the form is unchanged), the success event emitted, or an
  error thrown in the \<^verbatim>\<open>try\<close> body. On the last two paths the submit button is enabled
  again and gets its stored text back, unless that text is empty: then the button keeps
  the text \<^verbatim>\<open>Submitting...\<close>, because \<^verbatim>\<open>if (submitButton.dataset.originalText)\<close> takes an
  empty string for a missing one.
\<close>

theorem C2_submit_completion:
  assumes "\<not> isSubmitting f"
  shows "\<exists>f' effs out.
           handleSubmit (Suc (Suc d)) E f = Some (f', effs, out)
         \<and> \<not> isSubmitting f'
         \<and> (case validateForm (registry_of E) (formData f) (validationRules f) of
               Inl e \<Rightarrow> f' = f
             | Inr validation \<Rightarrow>
                 if \<not> form_isValid validation then f' = f
                 else submitButton f' = map_option after_submit (submitButton f))"
  using assms
  by (simp add: handleSubmit_idle finally_entered del: handleSubmit.simps split: sum.splits)

theorem C2_submit_completion_witness:
  "\<not> isSubmitting icon_button_form
   \<and> (\<exists>f' effs out.
         handleSubmit (Suc (Suc 0)) resubmitting_env icon_button_form = Some (f', effs, out)
       \<and> \<not> isSubmitting f'
       \<and> submitButton f' =
           Some \<lparr>disabled = False, classList = [''btn''], textContent = ''Submitting...'',
                 originalText = Some []\<rparr>)
   \<and> textContent (after_submit \<lparr>disabled = False, classList = [''btn''], textContent = [],
                                 originalText = None\<rparr>) \<noteq> []"
  using C2_submit_completion [of icon_button_form 0 resubmitting_env]
  by (auto simp add: icon_button_form_def resubmitting_env_def example_validation after_submit_def
      class_add_def class_remove_def simp del: handleSubmit.simps)

text \<open>
  C3. A submit that arrives while the controller is submitting is a no-op: the form is
  unchanged, nothing is validated and nothing is emitted. Hence a submission that passes
  validation emits the success event exactly once (not at all when the \<^verbatim>\<open>try\<close> body
  fails before the dispatch), however many further submits its listeners cause while it
  is under way.
\<close>

theorem C3_reentrant_submit_ignored:
  "(isSubmitting f \<longrightarrow> handleSubmit (Suc d) E f = Some (f, [], None))
   \<and> (\<not> isSubmitting f
        \<and> validateForm (registry_of E) (formData f) (validationRules f) = Inr validation
        \<and> form_isValid validation \<longrightarrow>
        (\<exists>f'. handleSubmit (Suc (Suc d)) E f = Some (f', observed E f, None))
        \<and> submit_count (observed E f) = (if fault_of E = FaultBeforeDispatch then 0 else 1))"
  by (cases "fault_of E")
     (simp_all add: handleSubmit_busy handleSubmit_idle observed_def submit_count_def
        del: handleSubmit.simps)

theorem C3_reentrant_submit_ignored_witness:
  "isSubmitting (icon_button_form\<lparr>isSubmitting := True\<rparr>)
   \<and> handleSubmit (Suc 0) resubmitting_env (icon_button_form\<lparr>isSubmitting := True\<rparr>) =
       Some (icon_button_form\<lparr>isSubmitting := True\<rparr>, [], None)
   \<and> \<not> isSubmitting icon_button_form
   \<and> Resubmit \<in> set (submit_listeners resubmitting_env)
   \<and> validateForm (registry_of resubmitting_env) (formData icon_button_form)
        (validationRules icon_button_form) =
       Inr \<lparr>form_isValid = True, form_errors = [],
            form_results = [(''name'', \<lparr>isValid = True, errors = []\<rparr>)]\<rparr>
   \<and> (\<exists>f'. handleSubmit (Suc (Suc 0)) resubmitting_env icon_button_form =
              Some (f', [Dispatch_submit [(''name'', JStr ''Ada'')], Console_log [(''name'', JStr ''Ada'')]], None))
   \<and> submit_count [Dispatch_submit [(''name'', JStr ''Ada'')], Console_log [(''name'', JStr ''Ada'')]] = 1"
  using C3_reentrant_submit_ignored [where f = "icon_button_form\<lparr>isSubmitting := True\<rparr>"
      and d = 0 and E = resubmitting_env]
    C3_reentrant_submit_ignored [where f = icon_button_form and d = 0 and E = resubmitting_env
      and validation = "\<lparr>form_isValid = True, form_errors = [],
                         form_results = [(''name'', \<lparr>isValid = True, errors = []\<rparr>)]\<rparr>"]
  by (auto simp add: icon_button_form_def resubmitting_env_def example_validation observed_def
      submit_count_def simp del: handleSubmit.simps)

end
